theory Spec2Isabelle
  imports Main
begin

section \<open>JavaScript values\<close>

text \<open>
  The options validator of \<^verbatim>\<open>lib/eslint/eslint.js\<close> inspects caller-supplied values with
  \<^verbatim>\<open>typeof\<close>, \<^verbatim>\<open>Array.isArray\<close> and comparison with \<^verbatim>\<open>null\<close>, so the values are
  modelled with their dynamic type. An object value is a plain data object: the list of
  its own enumerable data properties in enumeration order (keys distinct), on the
  prototype \<^verbatim>\<open>Object.prototype\<close>. A key \<^verbatim>\<open>__proto__\<close> in the list is an own property of
  that name, as \<^verbatim>\<open>JSON.parse\<close> or a computed key makes it. A function is opaque and
  identified by a number; it carries its built-in members only. Numbers are integers: the
  source produces and tests array lengths only, and of a caller-supplied number it looks
  at the \<^verbatim>\<open>typeof\<close> alone.
\<close>

datatype jsval =
    JUndefined
  | JNull
  | JBool bool
  | JNum int
  | JStr string
  | JArr "jsval list"
  | JObj "(string \<times> jsval) list"
  | JFun nat

type_synonym props = "(string \<times> jsval) list"

fun typeof :: "jsval \<Rightarrow> string" where
  "typeof JUndefined = ''undefined''"
| "typeof JNull = ''object''"
| "typeof (JBool b) = ''boolean''"
| "typeof (JNum n) = ''number''"
| "typeof (JStr s) = ''string''"
| "typeof (JArr xs) = ''object''"
| "typeof (JObj ps) = ''object''"
| "typeof (JFun f) = ''function''"

fun isArray :: "jsval \<Rightarrow> bool" where
  "isArray (JArr xs) = True"
| "isArray v = False"

text \<open>\<^verbatim>\<open>ToBoolean\<close>, as applied by \<^verbatim>\<open>if (...)\<close> and \<^verbatim>\<open>? :\<close>.\<close>

fun truthy :: "jsval \<Rightarrow> bool" where
  "truthy JUndefined = False"
| "truthy JNull = False"
| "truthy (JBool b) = b"
| "truthy (JNum n) = (n \<noteq> 0)"
| "truthy (JStr s) = (s \<noteq> [])"
| "truthy (JArr xs) = True"
| "truthy (JObj ps) = True"
| "truthy (JFun f) = True"

text \<open>
  What the source can throw: an \<^verbatim>\<open>Error\<close> with its message, or a \<^verbatim>\<open>TypeError\<close> raised
  by the language itself. The text of a \<^verbatim>\<open>TypeError\<close> differs between engines, so its
  cause is recorded instead.
\<close>

datatype type_error =
    NotAFunction string
  | ReadOfNullish string
  | NotIterable
  | NotWritable string

datatype error = Error string | TypeError type_error

text \<open>
  The member read \<^verbatim>\<open>v.k\<close>. The source reads the members \<^verbatim>\<open>plugins\<close>, \<^verbatim>\<open>length\<close>,
  \<^verbatim>\<open>id\<close> and \<^verbatim>\<open>definition\<close> of caller-supplied values, and \<^verbatim>\<open>includes\<close> and \<^verbatim>\<open>join\<close>
  of a plain object; the model reads \<^verbatim>\<open>map\<close> as well, of a value that is not an array.
  No built-in prototype of a plain object supplies any of them, and arrays and strings
  supply \<^verbatim>\<open>length\<close> only (of the names that are read on them). The own members of a
  function object are not modelled.
\<close>

fun js_get :: "jsval \<Rightarrow> string \<Rightarrow> error + jsval" where
  "js_get JUndefined k = Inl (TypeError (ReadOfNullish k))"
| "js_get JNull k = Inl (TypeError (ReadOfNullish k))"
| "js_get (JObj ps) k = Inr (case map_of ps k of Some v \<Rightarrow> v | None \<Rightarrow> JUndefined)"
| "js_get (JArr xs) k = Inr (if k = ''length'' then JNum (int (length xs)) else JUndefined)"
| "js_get (JStr s) k = Inr (if k = ''length'' then JNum (int (length s)) else JUndefined)"
| "js_get (JBool b) k = Inr JUndefined"
| "js_get (JNum n) k = Inr JUndefined"
| "js_get (JFun f) k = Inr JUndefined"

text \<open>
  What the code takes from outside: the working directory that \<^verbatim>\<open>process.cwd()\<close>
  returns, the behaviour of caller-supplied functions (function, \<^verbatim>\<open>this\<close>, arguments),
  \<^verbatim>\<open>ToString\<close> on the values whose conversion is not fixed by the value alone or needs
  number formatting, and which caller-supplied functions have a read-only \<^verbatim>\<open>prototype\<close>
  member (class constructors and built-in constructors).
\<close>

record ambient =
  process_cwd :: string
  call_function :: "nat \<Rightarrow> jsval \<Rightarrow> jsval list \<Rightarrow> error + jsval"
  ToString_other :: "jsval \<Rightarrow> error + string"
  readonly_prototype :: "nat \<Rightarrow> bool"

fun ToString :: "ambient \<Rightarrow> jsval \<Rightarrow> error + string" where
  "ToString amb (JStr s) = Inr s"
| "ToString amb JUndefined = Inr ''undefined''"
| "ToString amb JNull = Inr ''null''"
| "ToString amb (JBool b) = Inr (if b then ''true'' else ''false'')"
| "ToString amb v = ToString_other amb v"

section \<open>The options validator\<close>

text \<open>
  \<^verbatim>\<open>normalizePluginIds\<close>: \<^verbatim>\<open>plugins.map(p => (typeof p === "string" ? p : p.id))\<close>.
  \<open>plugin_ids\<close> is the \<^verbatim>\<open>map\<close> over the elements, which stops at the first element whose
  \<^verbatim>\<open>id\<close> cannot be read. The validator calls it on a value it has checked to be an array;
  on another value the read of \<^verbatim>\<open>map\<close> fails for \<^verbatim>\<open>undefined\<close> and \<^verbatim>\<open>null\<close>, and the call
  fails otherwise (an object that brings a \<^verbatim>\<open>map\<close> function of its own is not modelled).
\<close>

fun plugin_ids :: "jsval list \<Rightarrow> error + jsval list" where
  "plugin_ids [] = Inr []"
| "plugin_ids (p # ps) =
     (case (if typeof p = ''string'' then Inr p else js_get p ''id'') of
        Inl e \<Rightarrow> Inl e
      | Inr i \<Rightarrow> (case plugin_ids ps of Inl e \<Rightarrow> Inl e | Inr is \<Rightarrow> Inr (i # is)))"

fun normalizePluginIds :: "jsval \<Rightarrow> error + jsval" where
  "normalizePluginIds (JArr ps) =
     (case plugin_ids ps of Inl e \<Rightarrow> Inl e | Inr is \<Rightarrow> Inr (JArr is))"
| "normalizePluginIds v =
     (case js_get v ''map'' of
        Inl e \<Rightarrow> Inl e
      | Inr m \<Rightarrow> Inl (TypeError (NotAFunction ''plugins.map'')))"

text \<open>
  The object \<^verbatim>\<open>processOptions\<close> receives is the copy that \<^verbatim>\<open>Object.assign({}, options)\<close>
  made (line 234): its own properties in order and, when the copying changed it, its
  prototype; \<open>None\<close> stands for \<^verbatim>\<open>Object.prototype\<close>. \<open>plain ps\<close> is the object with the
  own properties \<open>ps\<close> and nothing else, such as an object literal makes.
\<close>

datatype object = Object (own: props) (prototype: "jsval option")

abbreviation plain :: "props \<Rightarrow> object" where
  "plain ps \<equiv> Object ps None"

text \<open>
  What a prototype supplies under one of the 23 names the parameter pattern reads: the own
  property of a plain data object. \<^verbatim>\<open>Object.prototype\<close>, an array, a function and their
  built-in prototypes have no member of any of these names, and \<^verbatim>\<open>null\<close> has no members.
  \<open>get_param\<close> is the read of such a name on the object: an own property, with whatever
  value, comes before the prototype.
\<close>

fun inherited :: "jsval option \<Rightarrow> string \<Rightarrow> jsval" where
  "inherited (Some (JObj ps)) k = (case map_of ps k of Some v \<Rightarrow> v | None \<Rightarrow> JUndefined)"
| "inherited p k = JUndefined"

definition get_param :: "object \<Rightarrow> string \<Rightarrow> jsval" where
  "get_param obj k =
     (case map_of (own obj) k of Some v \<Rightarrow> v | None \<Rightarrow> inherited (prototype obj) k)"

text \<open>
  The parameter of \<^verbatim>\<open>processOptions\<close> is an object pattern: each of the 23 names is bound
  to the property's value, or to its default when the value is \<^verbatim>\<open>undefined\<close> (absent or
  explicitly so); the rest element collects every other own property, in order.
\<close>

definition recognized :: "string list" where
  "recognized =
    [''allowInlineConfig'', ''baseConfig'', ''cache'', ''cacheLocation'', ''configFile'',
     ''cwd'', ''envs'', ''extensions'', ''fix'', ''fixTypes'', ''globals'',
     ''globInputPaths'', ''ignore'', ''ignorePath'', ''ignorePattern'', ''parser'',
     ''parserOptions'', ''plugins'', ''reportUnusedDisableDirectives'',
     ''resolvePluginsRelativeTo'', ''rulePaths'', ''rules'', ''useEslintrc'']"

definition param :: "object \<Rightarrow> string \<Rightarrow> jsval \<Rightarrow> jsval" where
  "param obj k d = (if get_param obj k = JUndefined then d else get_param obj k)"

definition rest_props :: "object \<Rightarrow> props" where
  "rest_props obj = filter (\<lambda>kv. fst kv \<notin> set recognized) (own obj)"

text \<open>
  The value thrown by lines 100 to 106 when the rest object has a key. The template
  literal calls \<^verbatim>\<open>unknownOptions.includes("cacheFile")\<close> and then
  \<^verbatim>\<open>unknownOptions.join(", ")\<close> on the rest object itself, a plain object, so each member
  is a function only if the caller supplied one under that name.
\<close>

definition unknownOptionsError :: "ambient \<Rightarrow> props \<Rightarrow> error" where
  "unknownOptionsError amb unknownOptions =
     (case js_get (JObj unknownOptions) ''includes'' of
        Inr (JFun f) \<Rightarrow>
          (case call_function amb f (JObj unknownOptions) [JStr ''cacheFile''] of
             Inl e \<Rightarrow> e
           | Inr r \<Rightarrow>
              (case js_get (JObj unknownOptions) ''join'' of
                 Inr (JFun g) \<Rightarrow>
                   (case call_function amb g (JObj unknownOptions) [JStr '', ''] of
                      Inl e \<Rightarrow> e
                    | Inr j \<Rightarrow>
                       (case ToString amb j of
                          Inl e \<Rightarrow> e
                        | Inr s \<Rightarrow>
                           Error ((if truthy r
                                   then ''cacheFile has been deprecated. Please use the cacheLocation option instead. ''
                                   else '''')
                                  @ ''Unknown options given: '' @ s @ ''.'')))
               | _ \<Rightarrow> TypeError (NotAFunction ''unknownOptions.join'')))
      | _ \<Rightarrow> TypeError (NotAFunction ''unknownOptions.includes''))"

definition processOptions :: "ambient \<Rightarrow> object \<Rightarrow> error + props" where
  "processOptions amb obj =
    (let allowInlineConfig = param obj ''allowInlineConfig'' (JBool True);
         baseConfig = param obj ''baseConfig'' JNull;
         cache = param obj ''cache'' (JBool False);
         cacheLocation = param obj ''cacheLocation'' (JStr ''.eslintcache'');
         configFile = param obj ''configFile'' JNull;
         cwd = param obj ''cwd'' (JStr (process_cwd amb));
         envs = param obj ''envs'' (JArr []);
         extensions = param obj ''extensions'' JNull;
         fix = param obj ''fix'' (JBool False);
         fixTypes = param obj ''fixTypes'' (JArr [JStr ''problem'', JStr ''suggestion'', JStr ''layout'']);
         globals = param obj ''globals'' (JArr []);
         globInputPaths = param obj ''globInputPaths'' (JBool True);
         ignore = param obj ''ignore'' (JBool True);
         ignorePath = param obj ''ignorePath'' JNull;
         ignorePattern = param obj ''ignorePattern'' (JArr []);
         parser = param obj ''parser'' (JStr ''espree'');
         parserOptions = param obj ''parserOptions'' JNull;
         plugins = param obj ''plugins'' (JArr []);
         reportUnusedDisableDirectives = param obj ''reportUnusedDisableDirectives'' (JBool False);
         resolvePluginsRelativeTo = param obj ''resolvePluginsRelativeTo'' cwd;
         rulePaths = param obj ''rulePaths'' (JArr []);
         rules = param obj ''rules'' JNull;
         useEslintrc = param obj ''useEslintrc'' (JBool True);
         unknownOptions = rest_props obj
     in
       if length (map fst unknownOptions) \<ge> 1 then
         Inl (unknownOptionsError amb unknownOptions)
       else if typeof allowInlineConfig \<noteq> ''boolean'' then
         Inl (Error ''allowInlineConfig must be a boolean.'')
       else if typeof baseConfig \<noteq> ''object'' then
         Inl (Error ''baseConfig must be an object or null.'')
       else if typeof cache \<noteq> ''boolean'' then
         Inl (Error ''cache must be a boolean.'')
       else if typeof cacheLocation \<noteq> ''string'' then
         Inl (Error ''cacheLocation must be a string.'')
       else if typeof configFile \<noteq> ''string'' \<and> cacheLocation \<noteq> JNull then
         Inl (Error ''configFile must be a string or null.'')
       else if typeof cwd \<noteq> ''string'' then
         Inl (Error ''cwd must be a string.'')
       else if \<not> isArray envs then
         Inl (Error ''envs must be an array.'')
       else if \<not> isArray extensions \<and> extensions \<noteq> JNull then
         Inl (Error ''extensions must be an array or null.'')
       else if typeof fix \<noteq> ''boolean'' then
         Inl (Error ''fix must be a boolean.'')
       else if \<not> isArray fixTypes then
         Inl (Error ''fixTypes must be an array.'')
       else if \<not> isArray globals then
         Inl (Error ''globals must be an array.'')
       else if typeof globInputPaths \<noteq> ''boolean'' then
         Inl (Error ''globInputPaths must be a boolean.'')
       else if typeof ignore \<noteq> ''boolean'' then
         Inl (Error ''globInputPaths must be a boolean.'')
       else if typeof ignorePath \<noteq> ''string'' \<and> ignorePath \<noteq> JNull then
         Inl (Error ''ignorePath must be a string or null.'')
       else if typeof ignorePattern \<noteq> ''string'' \<and> \<not> isArray ignorePattern then
         Inl (Error ''ignorePattern must be a string or an array of strings.'')
       else if typeof parser \<noteq> ''string'' then
         Inl (Error ''parser must be a string.'')
       else if typeof parserOptions \<noteq> ''object'' then
         Inl (Error ''parserOptions must be an object or null.'')
       else if \<not> isArray plugins then
         Inl (Error ''plugins must be an array.'')
       else if typeof reportUnusedDisableDirectives \<noteq> ''boolean'' then
         Inl (Error ''reportUnusedDisableDirectives must be a boolean.'')
       else if typeof resolvePluginsRelativeTo \<noteq> ''string'' then
         Inl (Error ''resolvePluginsRelativeTo must be a string.'')
       else if \<not> isArray rulePaths then
         Inl (Error ''plugins must be an array.'')
       else if typeof rules \<noteq> ''object'' then
         Inl (Error ''rules must be an object or null.'')
       else if typeof useEslintrc \<noteq> ''boolean'' then
         Inl (Error ''useElintrc must be a boolean.'')
       else
         (case normalizePluginIds plugins of
            Inl e \<Rightarrow> Inl e
          | Inr ids \<Rightarrow>
              Inr [(''allowInlineConfig'', allowInlineConfig),
                   (''baseConfig'', baseConfig),
                   (''cache'', cache),
                   (''cacheLocation'', cacheLocation),
                   (''configFile'', configFile),
                   (''cwd'', cwd),
                   (''envs'', envs),
                   (''extensions'', extensions),
                   (''fix'', fix),
                   (''fixTypes'', fixTypes),
                   (''globInputPaths'', globInputPaths),
                   (''globals'', globals),
                   (''ignore'', ignore),
                   (''ignorePath'', ignorePath),
                   (''ignorePattern'', ignorePattern),
                   (''parser'', parser),
                   (''parserOptions'', parserOptions),
                   (''plugins'', ids),
                   (''reportUnusedDisableDirectives'', reportUnusedDisableDirectives),
                   (''resolvePluginsRelativeTo'', resolvePluginsRelativeTo),
                   (''rulePaths'', rulePaths),
                   (''rules'', rules),
                   (''useEslintrc'', useEslintrc)]))"

section \<open>The constructor and the engine\<close>

text \<open>
  \<^verbatim>\<open>CLIEngine\<close> is required from another module. The model records the calls the
  constructor issues to it, in order, and takes the engine's behaviour as a parameter: given
  the calls completed so far and the next call, what that call throws, if anything.
\<close>

datatype engine_call = NewCLIEngine props | AddPlugin jsval jsval

type_synonym engine = "engine_call list \<Rightarrow> engine_call \<Rightarrow> error option"

text \<open>
  \<^verbatim>\<open>Object.assign({}, options)\<close> assigns the own enumerable properties of the argument to a
  fresh object, one by one in order: none for \<^verbatim>\<open>undefined\<close>, \<^verbatim>\<open>null\<close>, a boolean, a number
  or a function, the indexed elements for an array or a string. The assignment is an
  ordinary one, so it goes through the prototype chain of the copy:
  \<^item> assigning \<^verbatim>\<open>__proto__\<close> runs the setter of \<^verbatim>\<open>Object.prototype\<close>, which makes an object,
    an array, a function or \<^verbatim>\<open>null\<close> the prototype of the copy and ignores any other value;
    the copy gets no own property of that name;
  \<^item> once a function is the prototype, assigning one of its read-only members
    (\<^verbatim>\<open>name\<close>, \<^verbatim>\<open>length\<close>, \<^verbatim>\<open>caller\<close>, \<^verbatim>\<open>arguments\<close>, and \<^verbatim>\<open>prototype\<close> where that is
    read-only) is refused, and \<^verbatim>\<open>Object.assign\<close> throws a \<^verbatim>\<open>TypeError\<close>;
  \<^item> any other assignment creates an own property of the copy.
\<close>

fun show_nat :: "nat \<Rightarrow> string" where
  "show_nat n =
     (if n < 10 then [char_of (48 + n)]
      else show_nat (n div 10) @ [char_of (48 + n mod 10)])"

declare show_nat.simps [simp del]

fun own_enumerable :: "jsval \<Rightarrow> props" where
  "own_enumerable (JObj ps) = ps"
| "own_enumerable (JArr xs) = map (\<lambda>(i, v). (show_nat i, v)) (enumerate 0 xs)"
| "own_enumerable (JStr s) = map (\<lambda>(i, c). (show_nat i, JStr [c])) (enumerate 0 s)"
| "own_enumerable v = []"

fun refuses :: "ambient \<Rightarrow> jsval option \<Rightarrow> string \<Rightarrow> bool" where
  "refuses amb (Some (JFun f)) k =
     (k \<in> set [''name'', ''length'', ''caller'', ''arguments'']
      \<or> (k = ''prototype'' \<and> readonly_prototype amb f))"
| "refuses amb p k = False"

fun assign_all :: "ambient \<Rightarrow> object \<Rightarrow> props \<Rightarrow> error + object" where
  "assign_all amb to [] = Inr to"
| "assign_all amb to ((k, v) # kvs) =
     (if k = ''__proto__'' then
        assign_all amb
          (if typeof v = ''object'' \<or> typeof v = ''function''
           then Object (own to) (Some v) else to)
          kvs
      else if refuses amb (prototype to) k then Inl (TypeError (NotWritable k))
      else assign_all amb (Object (own to @ [(k, v)]) (prototype to)) kvs)"

definition Object_assign_empty :: "ambient \<Rightarrow> jsval \<Rightarrow> error + object" where
  "Object_assign_empty amb source = assign_all amb (plain []) (own_enumerable source)"

text \<open>The values a \<^verbatim>\<open>for ... of\<close> loop runs over.\<close>

fun iterate :: "jsval \<Rightarrow> error + jsval list" where
  "iterate (JArr xs) = Inr xs"
| "iterate (JStr s) = Inr (map (\<lambda>c. JStr [c]) s)"
| "iterate v = Inl (TypeError NotIterable)"

text \<open>
  The loop of lines 237 to 241 over the remaining plugin entries; \<open>issued\<close> holds the engine
  calls completed before it. A call that throws ends the construction.
\<close>

fun addPlugins :: "engine \<Rightarrow> engine_call list \<Rightarrow> jsval list \<Rightarrow> engine_call list \<times> (error + unit)" where
  "addPlugins eng issued [] = (issued, Inr ())"
| "addPlugins eng issued (plugin # others) =
     (if typeof plugin = ''object'' \<and> plugin \<noteq> JNull then
        (case js_get plugin ''id'' of
           Inl e \<Rightarrow> (issued, Inl e)
         | Inr i \<Rightarrow>
            (case js_get plugin ''definition'' of
               Inl e \<Rightarrow> (issued, Inl e)
             | Inr d \<Rightarrow>
                (case eng issued (AddPlugin i d) of
                   Some e \<Rightarrow> (issued @ [AddPlugin i d], Inl e)
                 | None \<Rightarrow> addPlugins eng (issued @ [AddPlugin i d]) others)))
      else addPlugins eng issued others)"

text \<open>
  The constructor: the copy, the validator on the copy, the engine on the validated
  options, then the loop over the plugins of the raw argument. It returns the engine calls
  it issued and either the error it threw or normally.
\<close>

definition ESLint_constructor :: "ambient \<Rightarrow> engine \<Rightarrow> jsval \<Rightarrow> engine_call list \<times> (error + unit)" where
  "ESLint_constructor amb eng options =
     (case Object_assign_empty amb options of
        Inl e \<Rightarrow> ([], Inl e)
      | Inr copy \<Rightarrow>
         (case processOptions amb copy of
            Inl e \<Rightarrow> ([], Inl e)
          | Inr opts \<Rightarrow>
             (case eng [] (NewCLIEngine opts) of
                Some e \<Rightarrow> ([NewCLIEngine opts], Inl e)
              | None \<Rightarrow>
                 (case js_get options ''plugins'' of
                    Inl e \<Rightarrow> ([NewCLIEngine opts], Inl e)
                  | Inr plugins \<Rightarrow>
                     (case js_get plugins ''length'' of
                        Inl e \<Rightarrow> ([NewCLIEngine opts], Inl e)
                      | Inr len \<Rightarrow>
                         if truthy len then
                           (case iterate plugins of
                              Inl e \<Rightarrow> ([NewCLIEngine opts], Inl e)
                            | Inr entries \<Rightarrow> addPlugins eng [NewCLIEngine opts] entries)
                         else ([NewCLIEngine opts], Inr ()))))))"

section \<open>The validation rules, one by one\<close>

text \<open>
  The specification numbers the rules: unknown fields first, then one rule for each
  recognized field. \<open>violated\<close> is the condition under which the source's statement for
  that rule throws, on the values bound by the parameter pattern; \<open>thrown\<close> is what that
  statement throws; \<open>first_violation\<close> is the first rule in the enumeration order that the
  record violates.
\<close>

datatype rule =
    R_unknown
  | R_allowInlineConfig
  | R_baseConfig
  | R_cache
  | R_cacheLocation
  | R_configFile
  | R_cwd
  | R_envs
  | R_extensions
  | R_fix
  | R_fixTypes
  | R_globals
  | R_globInputPaths
  | R_ignore
  | R_ignorePath
  | R_ignorePattern
  | R_parser
  | R_parserOptions
  | R_plugins
  | R_reportUnusedDisableDirectives
  | R_resolvePluginsRelativeTo
  | R_rulePaths
  | R_rules
  | R_useEslintrc

definition enumeration_order :: "rule list" where
  "enumeration_order =
    [R_unknown,
     R_allowInlineConfig, R_baseConfig, R_cache,
     R_cacheLocation, R_configFile, R_cwd,
     R_envs, R_extensions, R_fix,
     R_fixTypes, R_globals, R_globInputPaths,
     R_ignore, R_ignorePath, R_ignorePattern,
     R_parser, R_parserOptions, R_plugins,
     R_reportUnusedDisableDirectives, R_resolvePluginsRelativeTo, R_rulePaths,
     R_rules, R_useEslintrc]"

fun violated :: "ambient \<Rightarrow> object \<Rightarrow> rule \<Rightarrow> bool" where
  "violated amb obj R_unknown = (length (map fst (rest_props obj)) \<ge> 1)"
| "violated amb obj R_allowInlineConfig =
     (typeof (param obj ''allowInlineConfig'' (JBool True)) \<noteq> ''boolean'')"
| "violated amb obj R_baseConfig =
     (typeof (param obj ''baseConfig'' JNull) \<noteq> ''object'')"
| "violated amb obj R_cache =
     (typeof (param obj ''cache'' (JBool False)) \<noteq> ''boolean'')"
| "violated amb obj R_cacheLocation =
     (typeof (param obj ''cacheLocation'' (JStr ''.eslintcache'')) \<noteq> ''string'')"
| "violated amb obj R_configFile =
     (typeof (param obj ''configFile'' JNull) \<noteq> ''string'' \<and> param obj ''cacheLocation'' (JStr ''.eslintcache'') \<noteq> JNull)"
| "violated amb obj R_cwd =
     (typeof (param obj ''cwd'' (JStr (process_cwd amb))) \<noteq> ''string'')"
| "violated amb obj R_envs =
     (\<not> isArray (param obj ''envs'' (JArr [])))"
| "violated amb obj R_extensions =
     (\<not> isArray (param obj ''extensions'' JNull) \<and> (param obj ''extensions'' JNull) \<noteq> JNull)"
| "violated amb obj R_fix =
     (typeof (param obj ''fix'' (JBool False)) \<noteq> ''boolean'')"
| "violated amb obj R_fixTypes =
     (\<not> isArray (param obj ''fixTypes'' (JArr [JStr ''problem'', JStr ''suggestion'', JStr ''layout''])))"
| "violated amb obj R_globals =
     (\<not> isArray (param obj ''globals'' (JArr [])))"
| "violated amb obj R_globInputPaths =
     (typeof (param obj ''globInputPaths'' (JBool True)) \<noteq> ''boolean'')"
| "violated amb obj R_ignore =
     (typeof (param obj ''ignore'' (JBool True)) \<noteq> ''boolean'')"
| "violated amb obj R_ignorePath =
     (typeof (param obj ''ignorePath'' JNull) \<noteq> ''string'' \<and> (param obj ''ignorePath'' JNull) \<noteq> JNull)"
| "violated amb obj R_ignorePattern =
     (typeof (param obj ''ignorePattern'' (JArr [])) \<noteq> ''string'' \<and> \<not> isArray (param obj ''ignorePattern'' (JArr [])))"
| "violated amb obj R_parser =
     (typeof (param obj ''parser'' (JStr ''espree'')) \<noteq> ''string'')"
| "violated amb obj R_parserOptions =
     (typeof (param obj ''parserOptions'' JNull) \<noteq> ''object'')"
| "violated amb obj R_plugins =
     (\<not> isArray (param obj ''plugins'' (JArr [])))"
| "violated amb obj R_reportUnusedDisableDirectives =
     (typeof (param obj ''reportUnusedDisableDirectives'' (JBool False)) \<noteq> ''boolean'')"
| "violated amb obj R_resolvePluginsRelativeTo =
     (typeof (param obj ''resolvePluginsRelativeTo'' (param obj ''cwd'' (JStr (process_cwd amb)))) \<noteq> ''string'')"
| "violated amb obj R_rulePaths =
     (\<not> isArray (param obj ''rulePaths'' (JArr [])))"
| "violated amb obj R_rules =
     (typeof (param obj ''rules'' JNull) \<noteq> ''object'')"
| "violated amb obj R_useEslintrc =
     (typeof (param obj ''useEslintrc'' (JBool True)) \<noteq> ''boolean'')"

fun thrown :: "ambient \<Rightarrow> object \<Rightarrow> rule \<Rightarrow> error" where
  "thrown amb obj R_unknown = unknownOptionsError amb (rest_props obj)"
| "thrown amb obj R_allowInlineConfig = Error ''allowInlineConfig must be a boolean.''"
| "thrown amb obj R_baseConfig = Error ''baseConfig must be an object or null.''"
| "thrown amb obj R_cache = Error ''cache must be a boolean.''"
| "thrown amb obj R_cacheLocation = Error ''cacheLocation must be a string.''"
| "thrown amb obj R_configFile = Error ''configFile must be a string or null.''"
| "thrown amb obj R_cwd = Error ''cwd must be a string.''"
| "thrown amb obj R_envs = Error ''envs must be an array.''"
| "thrown amb obj R_extensions = Error ''extensions must be an array or null.''"
| "thrown amb obj R_fix = Error ''fix must be a boolean.''"
| "thrown amb obj R_fixTypes = Error ''fixTypes must be an array.''"
| "thrown amb obj R_globals = Error ''globals must be an array.''"
| "thrown amb obj R_globInputPaths = Error ''globInputPaths must be a boolean.''"
| "thrown amb obj R_ignore = Error ''globInputPaths must be a boolean.''"
| "thrown amb obj R_ignorePath = Error ''ignorePath must be a string or null.''"
| "thrown amb obj R_ignorePattern = Error ''ignorePattern must be a string or an array of strings.''"
| "thrown amb obj R_parser = Error ''parser must be a string.''"
| "thrown amb obj R_parserOptions = Error ''parserOptions must be an object or null.''"
| "thrown amb obj R_plugins = Error ''plugins must be an array.''"
| "thrown amb obj R_reportUnusedDisableDirectives = Error ''reportUnusedDisableDirectives must be a boolean.''"
| "thrown amb obj R_resolvePluginsRelativeTo = Error ''resolvePluginsRelativeTo must be a string.''"
| "thrown amb obj R_rulePaths = Error ''plugins must be an array.''"
| "thrown amb obj R_rules = Error ''rules must be an object or null.''"
| "thrown amb obj R_useEslintrc = Error ''useElintrc must be a boolean.''"

definition first_violation :: "ambient \<Rightarrow> object \<Rightarrow> rule option" where
  "first_violation amb obj = find (violated amb obj) enumeration_order"

text \<open>
  The object literal that \<^verbatim>\<open>processOptions\<close> returns (lines 200 to 224), written on the
  object it received, with \<open>ids\<close> for the result of \<^verbatim>\<open>normalizePluginIds(plugins)\<close>.
\<close>

definition options_record :: "ambient \<Rightarrow> object \<Rightarrow> jsval \<Rightarrow> props" where
  "options_record amb obj ids =
    [(''allowInlineConfig'', param obj ''allowInlineConfig'' (JBool True)),
     (''baseConfig'', param obj ''baseConfig'' JNull),
     (''cache'', param obj ''cache'' (JBool False)),
     (''cacheLocation'', param obj ''cacheLocation'' (JStr ''.eslintcache'')),
     (''configFile'', param obj ''configFile'' JNull),
     (''cwd'', param obj ''cwd'' (JStr (process_cwd amb))),
     (''envs'', param obj ''envs'' (JArr [])),
     (''extensions'', param obj ''extensions'' JNull),
     (''fix'', param obj ''fix'' (JBool False)),
     (''fixTypes'', param obj ''fixTypes'' (JArr [JStr ''problem'', JStr ''suggestion'', JStr ''layout''])),
     (''globInputPaths'', param obj ''globInputPaths'' (JBool True)),
     (''globals'', param obj ''globals'' (JArr [])),
     (''ignore'', param obj ''ignore'' (JBool True)),
     (''ignorePath'', param obj ''ignorePath'' JNull),
     (''ignorePattern'', param obj ''ignorePattern'' (JArr [])),
     (''parser'', param obj ''parser'' (JStr ''espree'')),
     (''parserOptions'', param obj ''parserOptions'' JNull),
     (''plugins'', ids),
     (''reportUnusedDisableDirectives'', param obj ''reportUnusedDisableDirectives'' (JBool False)),
     (''resolvePluginsRelativeTo'', param obj ''resolvePluginsRelativeTo'' (param obj ''cwd'' (JStr (process_cwd amb)))),
     (''rulePaths'', param obj ''rulePaths'' (JArr [])),
     (''rules'', param obj ''rules'' JNull),
     (''useEslintrc'', param obj ''useEslintrc'' (JBool True))]"

text \<open>
  The statement of lines 124 to 126 on its own, as a function of the two variables it reads:
  what it throws, if anything.
\<close>

definition configFile_rule :: "jsval \<Rightarrow> jsval \<Rightarrow> error option" where
  "configFile_rule configFile cacheLocation =
     (if typeof configFile \<noteq> ''string'' \<and> cacheLocation \<noteq> JNull
      then Some (Error ''configFile must be a string or null.'')
      else None)"

text \<open>
  An if-chain over a list of rules: the failure of the first rule that applies, or the
  final result. It is what \<^verbatim>\<open>processOptions\<close> is, read as one statement per rule.
\<close>

fun chain :: "('r \<Rightarrow> bool) \<Rightarrow> ('r \<Rightarrow> 'e) \<Rightarrow> 'e + 'a \<Rightarrow> 'r list \<Rightarrow> 'e + 'a" where
  "chain P T fin [] = fin"
| "chain P T fin (r # rs) = (if P r then Inl (T r) else chain P T fin rs)"

section \<open>Plugin entries\<close>

text \<open>
  The registration calls of the constructor's loop when no call throws: one for each entry
  that passes the test of line 238, in input order, with the entry's \<^verbatim>\<open>id\<close> and
  \<^verbatim>\<open>definition\<close> members as they are read (\<^verbatim>\<open>undefined\<close> when absent).
\<close>

definition structured :: "jsval \<Rightarrow> bool" where
  "structured p = (typeof p = ''object'' \<and> p \<noteq> JNull)"

definition member :: "jsval \<Rightarrow> string \<Rightarrow> jsval" where
  "member p k = (case js_get p k of Inr v \<Rightarrow> v | Inl e \<Rightarrow> JUndefined)"

fun registrations :: "jsval list \<Rightarrow> engine_call list" where
  "registrations [] = []"
| "registrations (p # ps) =
     (if structured p then [AddPlugin (member p ''id'') (member p ''definition'')] else [])
     @ registrations ps"

text \<open>
  An entry whose identifier is a string: a primitive string, or a value whose \<^verbatim>\<open>id\<close>
  member is one.
\<close>

fun string_identified :: "jsval \<Rightarrow> bool" where
  "string_identified (JStr s) = True"
| "string_identified p = (case js_get p ''id'' of Inr (JStr s) \<Rightarrow> True | _ \<Rightarrow> False)"

text \<open>A record that supplies every recognized field with a value, as an own property.\<close>

definition fully_populated :: "object \<Rightarrow> bool" where
  "fully_populated obj =
     list_all (\<lambda>k. case map_of (own obj) k of None \<Rightarrow> False | Some v \<Rightarrow> v \<noteq> JUndefined)
       recognized"

section \<open>Concrete inputs\<close>

text \<open>Concrete surroundings for evaluation: an engine that accepts every call.\<close>

definition accepting :: engine where
  "accepting issued c = None"

definition amb0 :: ambient where
  "amb0 = \<lparr> process_cwd = ''/work'',
            call_function = (\<lambda>f this args. Inr JUndefined),
            ToString_other = (\<lambda>v. Inr ''[object Object]''),
            readonly_prototype = (\<lambda>f. False) \<rparr>"

text \<open>A record with every field supplied and valid, around a given \<^verbatim>\<open>plugins\<close> value.\<close>

definition full_options :: "jsval \<Rightarrow> props" where
  "full_options plugins =
    [(''allowInlineConfig'', JBool True),
     (''baseConfig'', JObj []),
     (''cache'', JBool False),
     (''cacheLocation'', JStr ''.eslintcache''),
     (''configFile'', JStr ''.eslintrc.json''),
     (''cwd'', JStr ''/work''),
     (''envs'', JArr []),
     (''extensions'', JArr [JStr ''.js'']),
     (''fix'', JBool False),
     (''fixTypes'', JArr [JStr ''problem'']),
     (''globals'', JArr []),
     (''globInputPaths'', JBool True),
     (''ignore'', JBool True),
     (''ignorePath'', JStr ''.eslintignore''),
     (''ignorePattern'', JArr []),
     (''parser'', JStr ''espree''),
     (''parserOptions'', JObj []),
     (''plugins'', plugins),
     (''reportUnusedDisableDirectives'', JBool False),
     (''resolvePluginsRelativeTo'', JStr ''/work''),
     (''rulePaths'', JArr []),
     (''rules'', JObj []),
     (''useEslintrc'', JBool True)]"

section \<open>The validator as a chain of rules\<close>

lemma chain_find:
  "chain P T fin rs = (case find P rs of Some r \<Rightarrow> Inl (T r) | None \<Rightarrow> fin)"
  by (induction rs) simp_all

lemma processOptions_chain:
  "processOptions amb obj =
     chain (violated amb obj) (thrown amb obj)
       (case normalizePluginIds (param obj ''plugins'' (JArr [])) of
          Inl e \<Rightarrow> Inl e
        | Inr ids \<Rightarrow> Inr (options_record amb obj ids))
       enumeration_order"
  unfolding enumeration_order_def processOptions_def Let_def options_record_def chain.simps violated.simps thrown.simps
  by (rule refl)

lemma processOptions_violation:
  "first_violation amb obj = Some f \<Longrightarrow> processOptions amb obj = Inl (thrown amb obj f)"
  by (simp add: processOptions_chain chain_find first_violation_def)

lemma processOptions_valid:
  "first_violation amb obj = None \<Longrightarrow>
   processOptions amb obj =
     (case normalizePluginIds (param obj ''plugins'' (JArr [])) of
        Inl e \<Rightarrow> Inl e
      | Inr ids \<Rightarrow> Inr (options_record amb obj ids))"
  by (simp add: processOptions_chain chain_find first_violation_def)

lemma enumeration_order_complete: "r \<in> set enumeration_order"
  unfolding enumeration_order_def by (cases r) simp_all

lemma first_violation_None_iff:
  "first_violation amb obj = None \<longleftrightarrow> (\<forall>r. \<not> violated amb obj r)"
  by (auto simp: first_violation_def find_None_iff enumeration_order_complete)

lemma first_violation_exists:
  "violated amb obj r \<Longrightarrow> \<exists>f. first_violation amb obj = Some f"
  using first_violation_None_iff [of amb obj] by (cases "first_violation amb obj") auto

lemma typeof_string_iff: "typeof v = ''string'' \<longleftrightarrow> (\<exists>s. v = JStr s)"
  by (cases v) simp_all

lemma isArray_iff: "isArray v \<longleftrightarrow> (\<exists>xs. v = JArr xs)"
  by (cases v) simp_all

lemma param_defined: "d \<noteq> JUndefined \<Longrightarrow> (param obj k d = JUndefined) = False"
  by (simp add: param_def)

lemma param_record:
  "map_of out k = Some v \<Longrightarrow> v \<noteq> JUndefined \<Longrightarrow> param (plain out) k d = v"
  by (simp add: param_def get_param_def)

lemma options_record_configFile:
  "map_of (options_record amb obj ids) ''configFile'' = Some (param obj ''configFile'' JNull)"
  by (simp add: options_record_def)

lemma options_record_plugins:
  "map_of (options_record amb obj ids) ''plugins'' = Some ids"
  by (simp add: options_record_def)

lemma param_options_record:
  "param (plain (options_record amb obj ids)) ''allowInlineConfig'' d0 = param obj ''allowInlineConfig'' (JBool True)"
  "param (plain (options_record amb obj ids)) ''baseConfig'' d1 = param obj ''baseConfig'' JNull"
  "param (plain (options_record amb obj ids)) ''cache'' d2 = param obj ''cache'' (JBool False)"
  "param (plain (options_record amb obj ids)) ''cacheLocation'' d3 = param obj ''cacheLocation'' (JStr ''.eslintcache'')"
  "param (plain (options_record amb obj ids)) ''configFile'' d4 = param obj ''configFile'' JNull"
  "param (plain (options_record amb obj ids)) ''cwd'' d5 = param obj ''cwd'' (JStr (process_cwd amb))"
  "param (plain (options_record amb obj ids)) ''envs'' d6 = param obj ''envs'' (JArr [])"
  "param (plain (options_record amb obj ids)) ''extensions'' d7 = param obj ''extensions'' JNull"
  "param (plain (options_record amb obj ids)) ''fix'' d8 = param obj ''fix'' (JBool False)"
  "param (plain (options_record amb obj ids)) ''fixTypes'' d9 = param obj ''fixTypes'' (JArr [JStr ''problem'', JStr ''suggestion'', JStr ''layout''])"
  "param (plain (options_record amb obj ids)) ''globals'' d10 = param obj ''globals'' (JArr [])"
  "param (plain (options_record amb obj ids)) ''globInputPaths'' d11 = param obj ''globInputPaths'' (JBool True)"
  "param (plain (options_record amb obj ids)) ''ignore'' d12 = param obj ''ignore'' (JBool True)"
  "param (plain (options_record amb obj ids)) ''ignorePath'' d13 = param obj ''ignorePath'' JNull"
  "param (plain (options_record amb obj ids)) ''ignorePattern'' d14 = param obj ''ignorePattern'' (JArr [])"
  "param (plain (options_record amb obj ids)) ''parser'' d15 = param obj ''parser'' (JStr ''espree'')"
  "param (plain (options_record amb obj ids)) ''parserOptions'' d16 = param obj ''parserOptions'' JNull"
  "param (plain (options_record amb obj ids)) ''reportUnusedDisableDirectives'' d17 = param obj ''reportUnusedDisableDirectives'' (JBool False)"
  "param (plain (options_record amb obj ids)) ''resolvePluginsRelativeTo'' d18 = param obj ''resolvePluginsRelativeTo'' (param obj ''cwd'' (JStr (process_cwd amb)))"
  "param (plain (options_record amb obj ids)) ''rulePaths'' d19 = param obj ''rulePaths'' (JArr [])"
  "param (plain (options_record amb obj ids)) ''rules'' d20 = param obj ''rules'' JNull"
  "param (plain (options_record amb obj ids)) ''useEslintrc'' d21 = param obj ''useEslintrc'' (JBool True)"
  by (rule param_record, simp add: options_record_def, simp add: param_defined)+


lemma param_options_record_plugins:
  "ids \<noteq> JUndefined \<Longrightarrow> param (plain (options_record amb obj ids)) ''plugins'' d = ids"
  by (rule param_record) (simp_all add: options_record_plugins)

lemma rest_props_options_record: "rest_props (plain (options_record amb obj ids)) = []"
  by (simp add: rest_props_def options_record_def recognized_def)


lemma violated_options_record:
  "violated amb' (plain (options_record amb obj (JArr js))) r =
     (r \<noteq> R_unknown \<and> r \<noteq> R_plugins \<and> violated amb obj r)"
  by (cases r)
     (simp_all add: param_options_record param_options_record_plugins rest_props_options_record)

lemma options_record_again:
  "options_record amb' (plain (options_record amb obj (JArr js))) ids = options_record amb obj ids"
  unfolding options_record_def [of amb' "plain (options_record amb obj (JArr js))" ids]
  unfolding param_options_record
  unfolding options_record_def
  by (rule refl)

lemma plugin_ids_strings:
  "list_all (\<lambda>i. typeof i = ''string'') js \<Longrightarrow> plugin_ids js = Inr js"
  by (induction js) simp_all

lemma string_identified_id:
  "string_identified p \<Longrightarrow>
   \<exists>s. (if typeof p = ''string'' then Inr p else js_get p ''id'') = Inr (JStr s)"
  by (cases p) (auto split: sum.splits jsval.splits option.splits)

lemma plugin_ids_string_identified:
  "list_all string_identified ps \<Longrightarrow>
   \<exists>js. plugin_ids ps = Inr js \<and> list_all (\<lambda>i. typeof i = ''string'') js"
proof (induction ps)
  case Nil
  then show ?case by simp
next
  case (Cons p ps)
  then obtain js where js: "plugin_ids ps = Inr js" "list_all (\<lambda>i. typeof i = ''string'') js"
    by auto
  from Cons.prems obtain s
    where "(if typeof p = ''string'' then Inr p else js_get p ''id'') = Inr (JStr s)"
    using string_identified_id [of p] by auto
  with js show ?case by simp
qed


lemma first_violation_violated:
  "first_violation amb obj = Some f \<Longrightarrow> violated amb obj f"
  by (auto simp: first_violation_def find_Some_iff)

lemma unknown_first:
  "rest_props obj \<noteq> [] \<Longrightarrow> first_violation amb obj = Some R_unknown"
  by (cases "rest_props obj") (simp_all add: first_violation_def enumeration_order_def)

text \<open>
  With an unknown field, and no function supplied under the name \<^verbatim>\<open>includes\<close>, the template
  literal of line 101 fails before any message is built.
\<close>

lemma unknown_without_includes:
  assumes "rest_props obj \<noteq> []"
      and "\<And>f. map_of (rest_props obj) ''includes'' \<noteq> Some (JFun f)"
  shows "processOptions amb obj = Inl (TypeError (NotAFunction ''unknownOptions.includes''))"
proof -
  have "unknownOptionsError amb (rest_props obj) = TypeError (NotAFunction ''unknownOptions.includes'')"
    using assms(2) by (simp add: unknownOptionsError_def split: option.splits jsval.splits)
  with unknown_first [OF assms(1)] processOptions_violation [of amb obj R_unknown]
  show ?thesis by simp
qed

lemma plugin_ids_error: "plugin_ids ps = Inl e \<Longrightarrow> \<exists>t. e = TypeError t"
proof (induction ps)
  case Nil
  then show ?case by simp
next
  case (Cons p ps)
  then show ?case
    by (cases p) (auto split: if_splits sum.splits)
qed

lemma normalizePluginIds_error: "normalizePluginIds v = Inl e \<Longrightarrow> \<exists>t. e = TypeError t"
  by (cases v) (auto split: sum.splits dest: plugin_ids_error)

lemma thrown_configFile_message:
  "thrown amb obj f = Error ''configFile must be a string or null.'' \<Longrightarrow>
   f = R_unknown \<or> f = R_configFile"
  by (cases f) simp_all

section \<open>The copy and the constructor\<close>

lemma assign_all_own:
  "assign_all amb to kvs = Inr copy \<Longrightarrow>
   own copy = own to @ filter (\<lambda>kv. fst kv \<noteq> ''__proto__'') kvs"
  by (induction amb to kvs rule: assign_all.induct) (auto split: if_splits)

lemma assign_all_plain:
  "''__proto__'' \<notin> fst ` set kvs \<Longrightarrow>
   assign_all amb (plain acc) kvs = Inr (plain (acc @ kvs))"
  by (induction kvs arbitrary: acc) auto

lemma assign_all_append:
  "assign_all amb to (xs @ ys) =
     (case assign_all amb to xs of Inl e \<Rightarrow> Inl e | Inr to' \<Rightarrow> assign_all amb to' ys)"
  by (induction amb to xs rule: assign_all.induct) simp_all

lemma refuses_plugins: "\<not> refuses amb p ''plugins''"
  by (cases "(amb, p, ''plugins'')" rule: refuses.cases) simp_all

lemma map_of_filter_fst:
  "P k \<Longrightarrow> map_of (filter (\<lambda>kv. P (fst kv)) xs) k = map_of xs k"
  by (induction xs) auto

lemma copy_own_lookup:
  assumes "Object_assign_empty amb (JObj raw) = Inr copy" and "k \<noteq> ''__proto__''"
  shows "map_of (own copy) k = map_of raw k"
proof -
  from assms(1) have "own copy = filter (\<lambda>kv. fst kv \<noteq> ''__proto__'') raw"
    using assign_all_own [of amb "plain []" raw copy] by (simp add: Object_assign_empty_def)
  with assms(2) show ?thesis
    using map_of_filter_fst [of "\<lambda>x. x \<noteq> ''__proto__''" k raw] by simp
qed

lemma copy_plain:
  "''__proto__'' \<notin> fst ` set raw \<Longrightarrow> Object_assign_empty amb (JObj raw) = Inr (plain raw)"
  using assign_all_plain [of raw amb "[]"] by (simp add: Object_assign_empty_def)

lemma copy_append_plugins:
  assumes "Object_assign_empty amb (JObj raw) = Inr copy"
  shows "Object_assign_empty amb (JObj (raw @ [(''plugins'', v)]))
           = Inr (Object (own copy @ [(''plugins'', v)]) (prototype copy))"
  using assms by (simp add: Object_assign_empty_def assign_all_append refuses_plugins)

lemma copy_failure_before_engine:
  "Object_assign_empty amb options = Inl e \<Longrightarrow> ESLint_constructor amb eng options = ([], Inl e)"
  by (simp add: ESLint_constructor_def)

lemma constructor_valid:
  assumes "Object_assign_empty amb (JObj raw) = Inr copy"
      and "processOptions amb copy = Inr opts"
      and "eng [] (NewCLIEngine opts) = None"
      and "map_of raw ''plugins'' = Some (JArr ps)"
  shows "ESLint_constructor amb eng (JObj raw) = addPlugins eng [NewCLIEngine opts] ps"
  using assms by (cases ps) (simp_all add: ESLint_constructor_def)

lemma constructor_plugins_omitted:
  assumes "map_of raw ''plugins'' = None"
  shows "ESLint_constructor amb eng (JObj raw) =
     (case Object_assign_empty amb (JObj raw) of
        Inl e \<Rightarrow> ([], Inl e)
      | Inr copy \<Rightarrow>
         (case processOptions amb copy of
            Inl e \<Rightarrow> ([], Inl e)
          | Inr opts \<Rightarrow>
             (case eng [] (NewCLIEngine opts) of
                Some e \<Rightarrow> ([NewCLIEngine opts], Inl e)
              | None \<Rightarrow> ([NewCLIEngine opts], Inl (TypeError (ReadOfNullish ''length''))))))"
  using assms by (simp add: ESLint_constructor_def split: sum.splits option.splits)

lemma structured_get: "structured p \<Longrightarrow> js_get p k = Inr (member p k)"
  by (cases p) (simp_all add: structured_def member_def)

lemma addPlugins_accepted:
  assumes "\<And>issued c. eng issued c = None"
  shows "addPlugins eng issued ps = (issued @ registrations ps, Inr ())"
proof (induction ps arbitrary: issued)
  case Nil
  show ?case by simp
next
  case (Cons p ps)
  show ?case
  proof (cases "structured p")
    case True
    then have "typeof p = ''object'' \<and> p \<noteq> JNull"
      by (simp add: structured_def)
    moreover have "eng issued (AddPlugin (member p ''id'') (member p ''definition'')) = None"
      by (rule assms)
    ultimately show ?thesis
      using True by (simp add: structured_get Cons.IH)
  next
    case False
    then have "\<not> (typeof p = ''object'' \<and> p \<noteq> JNull)"
      by (simp add: structured_def)
    then have "addPlugins eng issued (p # ps) = addPlugins eng issued ps"
      by (simp only: addPlugins.simps if_False)
    with False show ?thesis
      by (simp add: Cons.IH)
  qed
qed

lemma plugin_ids_entries:
  "(\<forall>p\<in>set ps. typeof p = ''string'' \<or> structured p) \<Longrightarrow>
   plugin_ids ps = Inr (map (\<lambda>p. if typeof p = ''string'' then p else member p ''id'') ps)"
  by (induction ps) (auto simp: structured_get)

lemma own_plugins_param:
  "map_of (own obj) ''plugins'' = Some (JArr ps) \<Longrightarrow> param obj ''plugins'' d = JArr ps"
  by (simp add: param_def get_param_def)

text \<open>
  Adding \<^verbatim>\<open>plugins: []\<close> to a record without \<^verbatim>\<open>plugins\<close>, when the prototype of the copy
  supplies none either, changes nothing for the validator.
\<close>

lemma param_with_plugins:
  assumes "map_of (own copy) ''plugins'' = None"
  shows "param (Object (own copy @ [(''plugins'', JArr [])]) (prototype copy)) k d =
           (if k = ''plugins'' then JArr [] else param copy k d)"
  using assms by (simp add: param_def get_param_def map_add_def split: option.splits)

lemma param_plugins_omitted:
  "map_of (own copy) ''plugins'' = None \<Longrightarrow> inherited (prototype copy) ''plugins'' = JUndefined \<Longrightarrow>
   param copy ''plugins'' (JArr []) = JArr []"
  by (simp add: param_def get_param_def)

lemma rest_props_with_plugins:
  "rest_props (Object (ps @ [(''plugins'', v)]) p) = rest_props (Object ps p)"
  by (simp add: rest_props_def recognized_def)

lemma processOptions_with_plugins:
  assumes "map_of (own copy) ''plugins'' = None"
      and "inherited (prototype copy) ''plugins'' = JUndefined"
  shows "processOptions amb (Object (own copy @ [(''plugins'', JArr [])]) (prototype copy))
           = processOptions amb copy"
proof -
  let ?copy' = "Object (own copy @ [(''plugins'', JArr [])]) (prototype copy)"
  have r: "rest_props ?copy' = rest_props copy"
    using rest_props_with_plugins [of "own copy" "JArr []" "prototype copy"] by simp
  have "violated amb ?copy' r = violated amb copy r" for r
    using assms
    by (cases r) (simp_all add: param_with_plugins param_plugins_omitted r)
  then have v: "violated amb ?copy' = violated amb copy"
    by (rule ext)
  have "thrown amb ?copy' r = thrown amb copy r" for r
    by (cases r) (simp_all add: r)
  then have t: "thrown amb ?copy' = thrown amb copy"
    by (rule ext)
  have o: "options_record amb ?copy' ids = options_record amb copy ids" for ids
    using assms by (simp add: options_record_def param_with_plugins)
  have p: "param ?copy' ''plugins'' (JArr []) = param copy ''plugins'' (JArr [])"
    using assms by (simp add: param_with_plugins param_plugins_omitted)
  show ?thesis
    by (simp only: processOptions_chain v t o p)
qed

section \<open>Concrete records\<close>

lemma minimal_valid:
  "first_violation amb (plain [(''configFile'', JStr ''.eslintrc.json'')]) = None"
  by (simp add: first_violation_def enumeration_order_def param_def get_param_def rest_props_def recognized_def)

lemma one_plugin_valid:
  "first_violation amb (plain [(''configFile'', JStr ''.eslintrc.json''), (''plugins'', JArr ps)])
     = None"
  by (simp add: first_violation_def enumeration_order_def param_def get_param_def rest_props_def recognized_def)

lemma full_options_valid: "first_violation amb (plain (full_options (JArr ps))) = None"
  by (simp add: first_violation_def enumeration_order_def param_def get_param_def rest_props_def recognized_def full_options_def)

lemma full_options_populated: "fully_populated (plain (full_options (JArr ps)))"
  by (simp add: fully_populated_def recognized_def full_options_def)

lemma full_options_plugins: "map_of (full_options v) ''plugins'' = Some v"
  by (simp add: full_options_def)

lemma empty_first_violation: "first_violation amb (plain []) = Some R_configFile"
  by (simp add: first_violation_def enumeration_order_def param_def get_param_def rest_props_def)

section \<open>The claims\<close>

subsection \<open>Unknown fields\<close>

text \<open>
  Claim C1: a raw record with a field outside the recognized set fails with an
  unknown-option error whose message lists the unknown names, after the rename hint when
  \<^verbatim>\<open>cacheFile\<close> is among them. The source calls \<^verbatim>\<open>includes\<close> and \<^verbatim>\<open>join\<close> on the rest
  object, which has neither: for the record \<^verbatim>\<open>{ cacheFile: ".cache" }\<close> and for
  \<^verbatim>\<open>{ foo: 1 }\<close> what is thrown is a \<^verbatim>\<open>TypeError\<close>, and no message is built.
\<close>

theorem unknown_option_throws_TypeError:
  "processOptions amb (plain [(''cacheFile'', JStr ''.cache'')])
     = Inl (TypeError (NotAFunction ''unknownOptions.includes''))
   \<and> processOptions amb (plain [(''foo'', JNum 1)])
     = Inl (TypeError (NotAFunction ''unknownOptions.includes''))"
  by (simp add: unknown_without_includes rest_props_def recognized_def)

subsection \<open>The empty record\<close>

text \<open>
  Claim C2: for the empty raw record validation succeeds, with the default \<^verbatim>\<open>fixTypes\<close>,
  \<^verbatim>\<open>parser\<close> and \<^verbatim>\<open>resolvePluginsRelativeTo\<close>. In the source the empty record is rejected:
  the default \<^verbatim>\<open>configFile\<close> is \<^verbatim>\<open>null\<close>, and line 124 tests \<^verbatim>\<open>cacheLocation\<close> against
  \<^verbatim>\<open>null\<close> where the message speaks of \<^verbatim>\<open>configFile\<close>.
\<close>

theorem empty_record_rejected:
  "processOptions amb (plain []) = Inl (Error ''configFile must be a string or null.'')"
  by (simp add: processOptions_violation empty_first_violation)

subsection \<open>Messages of the type checks\<close>

text \<open>
  Claim C3: a value of the wrong type for a recognized field fails with a message that
  names that field. Three statements of the source name something else: the check of
  \<^verbatim>\<open>ignore\<close> reports \<^verbatim>\<open>globInputPaths\<close>, the check of \<^verbatim>\<open>rulePaths\<close> reports \<^verbatim>\<open>plugins\<close>,
  and the check of \<^verbatim>\<open>useEslintrc\<close> reports \<^verbatim>\<open>useElintrc\<close>. Every other field is valid in
  the three records below.
\<close>

theorem type_mismatch_names_other_field:
  "processOptions amb
     (plain [(''configFile'', JStr ''.eslintrc.json''), (''ignore'', JStr ''yes'')])
     = Inl (Error ''globInputPaths must be a boolean.'')
   \<and> processOptions amb
       (plain [(''configFile'', JStr ''.eslintrc.json''), (''rulePaths'', JNum 5)])
     = Inl (Error ''plugins must be an array.'')
   \<and> processOptions amb
       (plain [(''configFile'', JStr ''.eslintrc.json''), (''useEslintrc'', JStr ''no'')])
     = Inl (Error ''useElintrc must be a boolean.'')"
proof -
  have "first_violation amb
          (plain [(''configFile'', JStr ''.eslintrc.json''), (''ignore'', JStr ''yes'')])
          = Some R_ignore"
    by (simp add: first_violation_def enumeration_order_def param_def get_param_def
          rest_props_def recognized_def)
  moreover
  have "first_violation amb
          (plain [(''configFile'', JStr ''.eslintrc.json''), (''rulePaths'', JNum 5)])
          = Some R_rulePaths"
    by (simp add: first_violation_def enumeration_order_def param_def get_param_def
          rest_props_def recognized_def)
  moreover
  have "first_violation amb
          (plain [(''configFile'', JStr ''.eslintrc.json''), (''useEslintrc'', JStr ''no'')])
          = Some R_useEslintrc"
    by (simp add: first_violation_def enumeration_order_def param_def get_param_def
          rest_props_def recognized_def)
  ultimately show ?thesis by (simp add: processOptions_violation)
qed

subsection \<open>Idempotence\<close>

text \<open>
  Claim C7 as stated asks this of every fully populated record whose fields satisfy their
  rules. The rule for \<^verbatim>\<open>plugins\<close> asks for an array only, and an entry without a string
  \<^verbatim>\<open>id\<close> is normalized to a value that is not a string: with
  \<^verbatim>\<open>plugins: [{ definition: {} }]\<close> the first pass returns \<^verbatim>\<open>plugins: [undefined]\<close>, and the
  second pass throws on reading \<^verbatim>\<open>id\<close> of \<^verbatim>\<open>undefined\<close>.
\<close>

theorem second_pass_fails_without_id:
  "fully_populated (plain (full_options (JArr [JObj [(''definition'', JObj [])]])))
   \<and> first_violation amb0 (plain (full_options (JArr [JObj [(''definition'', JObj [])]])))
       = None
   \<and> processOptions amb0 (plain (full_options (JArr [JObj [(''definition'', JObj [])]])))
       = Inr (options_record amb0
                (plain (full_options (JArr [JObj [(''definition'', JObj [])]])))
                (JArr [JUndefined]))
   \<and> processOptions amb0
        (plain (options_record amb0
                  (plain (full_options (JArr [JObj [(''definition'', JObj [])]])))
                  (JArr [JUndefined])))
       = Inl (TypeError (ReadOfNullish ''id''))"
proof -
  let ?raw = "plain (full_options (JArr [JObj [(''definition'', JObj [])]]))"
  let ?out = "options_record amb0 ?raw (JArr [JUndefined])"
  have "param ?raw ''plugins'' (JArr []) = JArr [JObj [(''definition'', JObj [])]]"
    by (simp add: own_plugins_param full_options_plugins)
  then have first: "processOptions amb0 ?raw = Inr ?out"
    by (simp add: processOptions_valid full_options_valid)
  have "\<not> violated amb0 ?raw r" for r
    using full_options_valid [of amb0] by (simp add: first_violation_None_iff)
  then have "first_violation amb0 (plain ?out) = None"
    by (simp add: first_violation_None_iff violated_options_record)
  then have "processOptions amb0 (plain ?out) = Inl (TypeError (ReadOfNullish ''id''))"
    by (simp add: processOptions_valid param_options_record_plugins)
  with first show ?thesis
    by (simp add: full_options_populated full_options_valid)
qed

text \<open>
  Claim C7, amended: for a fully populated raw record in which every field satisfies its
  rule and every \<^verbatim>\<open>plugins\<close> entry is a string or has a string \<^verbatim>\<open>id\<close>, the validator
  succeeds, and applied to its own output it succeeds again and returns that output.
\<close>

theorem idempotent_for_string_identifiers:
  assumes "fully_populated (plain raw)"
      and "first_violation amb (plain raw) = None"
      and "map_of raw ''plugins'' = Some (JArr ps)"
      and "list_all string_identified ps"
  shows "\<exists>out. processOptions amb (plain raw) = Inr out
           \<and> processOptions amb (plain out) = Inr out"
proof -
  from assms(4) obtain js
    where js: "plugin_ids ps = Inr js" "list_all (\<lambda>i. typeof i = ''string'') js"
    using plugin_ids_string_identified by blast
  let ?out = "options_record amb (plain raw) (JArr js)"
  from assms(3) have p: "param (plain raw) ''plugins'' (JArr []) = JArr ps"
    by (simp add: own_plugins_param)
  with assms(2) js(1) have first: "processOptions amb (plain raw) = Inr ?out"
    by (simp add: processOptions_valid)
  from assms(2) have "first_violation amb (plain ?out) = None"
    by (simp add: first_violation_None_iff violated_options_record)
  moreover have "param (plain ?out) ''plugins'' (JArr []) = JArr js"
    by (simp add: param_options_record_plugins)
  ultimately have "processOptions amb (plain ?out) = Inr ?out"
    using js(2) by (simp add: processOptions_valid plugin_ids_strings options_record_again)
  with first show ?thesis by blast
qed

theorem idempotent_for_string_identifiers_witness:
  "fully_populated
     (plain (full_options (JArr [JStr ''foo'', JObj [(''id'', JStr ''bar''), (''definition'', JObj [])]])))
   \<and> first_violation amb0
        (plain (full_options (JArr [JStr ''foo'', JObj [(''id'', JStr ''bar''), (''definition'', JObj [])]])))
       = None
   \<and> (\<exists>out. processOptions amb0
               (plain (full_options (JArr [JStr ''foo'', JObj [(''id'', JStr ''bar''), (''definition'', JObj [])]])))
               = Inr out
            \<and> processOptions amb0 (plain out) = Inr out)"
proof -
  let ?ps = "[JStr ''foo'', JObj [(''id'', JStr ''bar''), (''definition'', JObj [])]]"
  have s: "list_all string_identified ?ps"
    by simp
  from idempotent_for_string_identifiers
         [where raw = "full_options (JArr ?ps)" and amb = amb0 and ps = ?ps,
          OF full_options_populated full_options_valid full_options_plugins s]
  show ?thesis
    by (simp add: full_options_populated full_options_valid)
qed

subsection \<open>The normalized \<^verbatim>\<open>configFile\<close>\<close>

text \<open>
  Claim C10: every record the validator returns has a string \<^verbatim>\<open>configFile\<close>. The check of
  \<^verbatim>\<open>cacheLocation\<close> comes first and leaves a string, so the test \<^verbatim>\<open>cacheLocation !== null\<close>
  of line 124 always holds when it is reached, and a \<^verbatim>\<open>configFile\<close> that is not a string
  is rejected.
\<close>

theorem normalized_configFile_is_string:
  assumes "processOptions amb obj = Inr out"
  shows "\<exists>s. map_of out ''configFile'' = Some (JStr s)"
proof (cases "first_violation amb obj")
  case (Some f)
  with assms show ?thesis by (simp add: processOptions_violation)
next
  case None
  then have nv: "\<not> violated amb obj r" for r
    by (simp add: first_violation_None_iff)
  from nv [of R_cacheLocation] obtain l
    where l: "param obj ''cacheLocation'' (JStr ''.eslintcache'') = JStr l"
    by (auto simp: typeof_string_iff)
  with nv [of R_configFile] obtain s where s: "param obj ''configFile'' JNull = JStr s"
    by (auto simp: typeof_string_iff)
  from None assms obtain ids where "out = options_record amb obj ids"
    by (auto simp: processOptions_valid split: sum.splits)
  with s show ?thesis by (simp add: options_record_configFile)
qed

theorem normalized_configFile_is_string_witness:
  "processOptions amb0 (plain [(''configFile'', JStr ''.eslintrc.json'')])
     = Inr (options_record amb0 (plain [(''configFile'', JStr ''.eslintrc.json'')]) (JArr []))
   \<and> (\<exists>s. map_of (options_record amb0 (plain [(''configFile'', JStr ''.eslintrc.json'')])
                     (JArr []))
              ''configFile'' = Some (JStr s))"
proof -
  have h: "processOptions amb0 (plain [(''configFile'', JStr ''.eslintrc.json'')])
     = Inr (options_record amb0 (plain [(''configFile'', JStr ''.eslintrc.json'')]) (JArr []))"
    by (simp add: processOptions_valid minimal_valid param_def get_param_def)
  from normalized_configFile_is_string [OF h] h show ?thesis by simp
qed

subsection \<open>The rule for \<^verbatim>\<open>configFile\<close>\<close>

text \<open>
  Claim C4: the rule for \<^verbatim>\<open>configFile\<close> accepts a string always and accepts a value that
  is not a string exactly when \<^verbatim>\<open>cacheLocation\<close> is \<^verbatim>\<open>null\<close>; otherwise it fails with the
  message that names \<^verbatim>\<open>configFile\<close>. The validator applies it after the rules for unknown
  fields, \<^verbatim>\<open>allowInlineConfig\<close>, \<^verbatim>\<open>baseConfig\<close>, \<^verbatim>\<open>cache\<close> and \<^verbatim>\<open>cacheLocation\<close>: when
  none of these is violated, it throws that message exactly when the rule rejects. In
  particular, with \<^verbatim>\<open>cacheLocation\<close> at its default and \<^verbatim>\<open>configFile\<close> at its default
  \<^verbatim>\<open>null\<close>, the record is rejected.
\<close>

theorem configFile_rule_coupled_to_cacheLocation:
  "configFile_rule (JStr s) cl = None
   \<and> (typeof cf \<noteq> ''string'' \<longrightarrow> (configFile_rule cf cl = None \<longleftrightarrow> cl = JNull))
   \<and> (configFile_rule cf cl \<noteq> None \<longrightarrow>
        configFile_rule cf cl = Some (Error ''configFile must be a string or null.''))
   \<and> (\<not> violated amb obj R_unknown \<and> \<not> violated amb obj R_allowInlineConfig
        \<and> \<not> violated amb obj R_baseConfig \<and> \<not> violated amb obj R_cache
        \<and> \<not> violated amb obj R_cacheLocation \<longrightarrow>
        (processOptions amb obj = Inl (Error ''configFile must be a string or null.'')
         \<longleftrightarrow> configFile_rule (param obj ''configFile'' JNull)
               (param obj ''cacheLocation'' (JStr ''.eslintcache'')) \<noteq> None))
   \<and> (\<not> violated amb obj R_unknown \<and> \<not> violated amb obj R_allowInlineConfig
        \<and> \<not> violated amb obj R_baseConfig \<and> \<not> violated amb obj R_cache
        \<and> param obj ''cacheLocation'' (JStr ''.eslintcache'') = JStr ''.eslintcache''
        \<and> param obj ''configFile'' JNull = JNull \<longrightarrow>
        processOptions amb obj = Inl (Error ''configFile must be a string or null.''))"
proof -
  have link: "processOptions amb obj = Inl (Error ''configFile must be a string or null.'')
         \<longleftrightarrow> configFile_rule (param obj ''configFile'' JNull)
               (param obj ''cacheLocation'' (JStr ''.eslintcache'')) \<noteq> None"
    if early: "\<not> violated amb obj R_unknown" "\<not> violated amb obj R_allowInlineConfig"
       "\<not> violated amb obj R_baseConfig" "\<not> violated amb obj R_cache"
       "\<not> violated amb obj R_cacheLocation" for amb obj
  proof
    assume fails: "processOptions amb obj = Inl (Error ''configFile must be a string or null.'')"
    show "configFile_rule (param obj ''configFile'' JNull)
            (param obj ''cacheLocation'' (JStr ''.eslintcache'')) \<noteq> None"
    proof (cases "first_violation amb obj")
      case None
      with fails show ?thesis
        by (auto simp: processOptions_valid split: sum.splits dest: normalizePluginIds_error)
    next
      case (Some f)
      with fails have "thrown amb obj f = Error ''configFile must be a string or null.''"
        by (simp add: processOptions_violation)
      then have "f = R_unknown \<or> f = R_configFile"
        by (rule thrown_configFile_message)
      moreover from Some have "violated amb obj f"
        by (rule first_violation_violated)
      ultimately have "violated amb obj R_configFile"
        using early(1) by auto
      then show ?thesis by (simp add: configFile_rule_def)
    qed
  next
    assume "configFile_rule (param obj ''configFile'' JNull)
              (param obj ''cacheLocation'' (JStr ''.eslintcache'')) \<noteq> None"
    then have "violated amb obj R_configFile"
      by (simp add: configFile_rule_def split: if_splits)
    with early have "first_violation amb obj = Some R_configFile"
      by (simp add: first_violation_def enumeration_order_def)
    then show "processOptions amb obj = Inl (Error ''configFile must be a string or null.'')"
      by (simp add: processOptions_violation)
  qed
  have particular: "processOptions amb obj = Inl (Error ''configFile must be a string or null.'')"
    if "\<not> violated amb obj R_unknown" "\<not> violated amb obj R_allowInlineConfig"
       "\<not> violated amb obj R_baseConfig" "\<not> violated amb obj R_cache"
       "param obj ''cacheLocation'' (JStr ''.eslintcache'') = JStr ''.eslintcache''"
       "param obj ''configFile'' JNull = JNull"
  proof -
    from that(5) have "\<not> violated amb obj R_cacheLocation" by simp
    moreover from that(5,6) have "configFile_rule (param obj ''configFile'' JNull)
               (param obj ''cacheLocation'' (JStr ''.eslintcache'')) \<noteq> None"
      by (simp add: configFile_rule_def)
    ultimately show ?thesis using link [of amb obj] that(1-4) by blast
  qed
  have rule1: "configFile_rule (JStr s) cl = None"
    by (simp add: configFile_rule_def)
  have rule2: "typeof cf \<noteq> ''string'' \<longrightarrow> (configFile_rule cf cl = None \<longleftrightarrow> cl = JNull)"
    by (simp add: configFile_rule_def)
  have rule3: "configFile_rule cf cl \<noteq> None \<longrightarrow>
        configFile_rule cf cl = Some (Error ''configFile must be a string or null.'')"
    by (simp add: configFile_rule_def)
  from rule1 rule2 rule3 link [of amb obj] particular show ?thesis by blast
qed

theorem configFile_rule_coupled_to_cacheLocation_witness:
  "configFile_rule JNull JNull = None
   \<and> configFile_rule JNull (JStr ''.eslintcache'')
        = Some (Error ''configFile must be a string or null.'')
   \<and> processOptions amb0 (plain []) = Inl (Error ''configFile must be a string or null.'')"
  using configFile_rule_coupled_to_cacheLocation [of "''a''" JNull JNull amb0 "plain []"]
        configFile_rule_coupled_to_cacheLocation
          [of "''a''" "JStr ''.eslintcache''" JNull amb0 "plain []"]
  by (simp add: param_def get_param_def rest_props_def)


subsection \<open>Plugins\<close>

text \<open>
  Claim C5: for \<^verbatim>\<open>plugins: ["foo", { id: "bar", definition: {} }]\<close> in a record that
  violates no rule, the normalized \<^verbatim>\<open>plugins\<close> field is \<^verbatim>\<open>["foo", "bar"]\<close>, and when the
  engine is initialized the constructor issues, after the initialization, exactly one
  registration call, which binds \<^verbatim>\<open>"bar"\<close> to the definition object.
\<close>

theorem plugins_example_normalized_and_registered:
  assumes "map_of raw ''plugins''
             = Some (JArr [JStr ''foo'', JObj [(''id'', JStr ''bar''), (''definition'', JObj [])]])"
      and "Object_assign_empty amb (JObj raw) = Inr copy"
      and "first_violation amb copy = None"
  shows "\<exists>opts. processOptions amb copy = Inr opts
           \<and> map_of opts ''plugins'' = Some (JArr [JStr ''foo'', JStr ''bar''])
           \<and> (eng [] (NewCLIEngine opts) = None \<longrightarrow>
                fst (ESLint_constructor amb eng (JObj raw))
                  = [NewCLIEngine opts, AddPlugin (JStr ''bar'') (JObj [])])"
proof -
  let ?opts = "options_record amb copy (JArr [JStr ''foo'', JStr ''bar''])"
  from assms(1,2) have "map_of (own copy) ''plugins''
      = Some (JArr [JStr ''foo'', JObj [(''id'', JStr ''bar''), (''definition'', JObj [])]])"
    by (simp add: copy_own_lookup)
  then have "param copy ''plugins'' (JArr [])
      = JArr [JStr ''foo'', JObj [(''id'', JStr ''bar''), (''definition'', JObj [])]]"
    by (rule own_plugins_param)
  with assms(3) have ok: "processOptions amb copy = Inr ?opts"
    by (simp add: processOptions_valid)
  have "fst (ESLint_constructor amb eng (JObj raw))
          = [NewCLIEngine ?opts, AddPlugin (JStr ''bar'') (JObj [])]"
    if "eng [] (NewCLIEngine ?opts) = None"
    using constructor_valid [where eng = eng, OF assms(2) ok that assms(1)]
    by (simp split: option.splits)
  with ok show ?thesis
    by (auto simp: options_record_plugins)
qed

theorem plugins_example_normalized_and_registered_witness:
  "fst (ESLint_constructor amb0 accepting
         (JObj [(''configFile'', JStr ''.eslintrc.json''),
                (''plugins'', JArr [JStr ''foo'',
                                    JObj [(''id'', JStr ''bar''), (''definition'', JObj [])]])]))
     = [NewCLIEngine
          (options_record amb0
             (plain [(''configFile'', JStr ''.eslintrc.json''),
                     (''plugins'', JArr [JStr ''foo'',
                                         JObj [(''id'', JStr ''bar''), (''definition'', JObj [])]])])
             (JArr [JStr ''foo'', JStr ''bar''])),
        AddPlugin (JStr ''bar'') (JObj [])]"
proof -
  let ?raw = "[(''configFile'', JStr ''.eslintrc.json''),
              (''plugins'', JArr [JStr ''foo'',
                                  JObj [(''id'', JStr ''bar''), (''definition'', JObj [])]])]"
  have p: "map_of ?raw ''plugins''
             = Some (JArr [JStr ''foo'', JObj [(''id'', JStr ''bar''), (''definition'', JObj [])]])"
    by simp
  have c: "Object_assign_empty amb0 (JObj ?raw) = Inr (plain ?raw)"
    by (simp add: copy_plain)
  have v: "first_violation amb0 (plain ?raw) = None"
    by (rule one_plugin_valid)
  have ok: "processOptions amb0 (plain ?raw)
              = Inr (options_record amb0 (plain ?raw) (JArr [JStr ''foo'', JStr ''bar'']))"
    using v by (simp add: processOptions_valid param_def get_param_def)
  from plugins_example_normalized_and_registered [OF p c v, of accepting] ok show ?thesis
    by (simp add: accepting_def)
qed

text \<open>
  Claim C6 as stated: a string entry is its own identifier and causes no registration call;
  a structured entry contributes its \<^verbatim>\<open>id\<close>, and a registration call is issued for it if
  and only if it carries a \<^verbatim>\<open>definition\<close>. The loop of the constructor does not look for
  a \<^verbatim>\<open>definition\<close>: the entry \<^verbatim>\<open>{ id: "bar" }\<close>, which has none, is registered with
  \<^verbatim>\<open>undefined\<close>.
\<close>

theorem registration_without_definition:
  "map_of [(''id'', JStr ''bar'')] ''definition'' = None
   \<and> fst (ESLint_constructor amb0 accepting
            (JObj [(''configFile'', JStr ''.eslintrc.json''),
                   (''plugins'', JArr [JObj [(''id'', JStr ''bar'')]])]))
       = [NewCLIEngine
            (options_record amb0
               (plain [(''configFile'', JStr ''.eslintrc.json''),
                       (''plugins'', JArr [JObj [(''id'', JStr ''bar'')]])])
               (JArr [JStr ''bar''])),
          AddPlugin (JStr ''bar'') JUndefined]"
proof -
  let ?raw = "[(''configFile'', JStr ''.eslintrc.json''),
               (''plugins'', JArr [JObj [(''id'', JStr ''bar'')]])]"
  let ?opts = "options_record amb0 (plain ?raw) (JArr [JStr ''bar''])"
  have c: "Object_assign_empty amb0 (JObj ?raw) = Inr (plain ?raw)"
    by (simp add: copy_plain)
  have ok: "processOptions amb0 (plain ?raw) = Inr ?opts"
    by (simp add: processOptions_valid one_plugin_valid param_def get_param_def)
  have e: "accepting [] (NewCLIEngine ?opts) = None"
    by (simp add: accepting_def)
  have p: "map_of ?raw ''plugins'' = Some (JArr [JObj [(''id'', JStr ''bar'')]])"
    by simp
  from constructor_valid [where eng = accepting, OF c ok e p] show ?thesis
    by (simp add: accepting_def)
qed

text \<open>
  Claim C6, amended: in a record that violates no rule and whose \<^verbatim>\<open>plugins\<close> entries are
  strings or structured entries, a string entry is its own identifier and a structured
  entry contributes its \<^verbatim>\<open>id\<close> member; with an engine that accepts every call the
  constructor issues, after the initialization, one registration call for each
  structured entry, with or without a \<^verbatim>\<open>definition\<close>, in input order, and none for a
  string entry.
\<close>

theorem plugin_entries_identified_and_registered:
  assumes "map_of raw ''plugins'' = Some (JArr ps)"
      and "Object_assign_empty amb (JObj raw) = Inr copy"
      and "first_violation amb copy = None"
      and "\<forall>p\<in>set ps. typeof p = ''string'' \<or> structured p"
      and "\<forall>issued c. eng issued c = None"
  shows "\<exists>ids. processOptions amb copy = Inr (options_record amb copy (JArr ids))
           \<and> length ids = length ps
           \<and> (\<forall>i<length ps.
                 (typeof (ps ! i) = ''string'' \<longrightarrow> ids ! i = ps ! i)
               \<and> (structured (ps ! i) \<longrightarrow> ids ! i = member (ps ! i) ''id''))
           \<and> ESLint_constructor amb eng (JObj raw)
               = (NewCLIEngine (options_record amb copy (JArr ids)) # registrations ps, Inr ())"
proof -
  let ?ids = "map (\<lambda>p. if typeof p = ''string'' then p else member p ''id'') ps"
  let ?opts = "options_record amb copy (JArr ?ids)"
  from assms(1,2) have "map_of (own copy) ''plugins'' = Some (JArr ps)"
    by (simp add: copy_own_lookup)
  then have "param copy ''plugins'' (JArr []) = JArr ps"
    by (rule own_plugins_param)
  with assms(3,4) have ok: "processOptions amb copy = Inr ?opts"
    by (simp add: processOptions_valid plugin_ids_entries)
  from assms(5) have "eng [] (NewCLIEngine ?opts) = None"
    by simp
  from constructor_valid [where eng = eng, OF assms(2) ok this assms(1)] assms(5)
  have "ESLint_constructor amb eng (JObj raw) = (NewCLIEngine ?opts # registrations ps, Inr ())"
    by (simp add: addPlugins_accepted)
  moreover have "\<forall>i<length ps.
                 (typeof (ps ! i) = ''string'' \<longrightarrow> ?ids ! i = ps ! i)
               \<and> (structured (ps ! i) \<longrightarrow> ?ids ! i = member (ps ! i) ''id'')"
    by (auto simp: structured_def)
  ultimately show ?thesis using ok
    by (intro exI [of _ ?ids]) simp
qed

theorem plugin_entries_identified_and_registered_witness:
  "ESLint_constructor amb0 accepting
     (JObj [(''configFile'', JStr ''.eslintrc.json''),
            (''plugins'', JArr [JStr ''foo'', JObj [(''id'', JStr ''bar'')]])])
     = ([NewCLIEngine
           (options_record amb0
              (plain [(''configFile'', JStr ''.eslintrc.json''),
                      (''plugins'', JArr [JStr ''foo'', JObj [(''id'', JStr ''bar'')]])])
              (JArr [JStr ''foo'', JStr ''bar''])),
         AddPlugin (JStr ''bar'') JUndefined],
        Inr ())"
proof -
  let ?ps = "[JStr ''foo'', JObj [(''id'', JStr ''bar'')]]"
  let ?raw = "[(''configFile'', JStr ''.eslintrc.json''), (''plugins'', JArr ?ps)]"
  have p: "map_of ?raw ''plugins'' = Some (JArr ?ps)"
    by simp
  have c: "Object_assign_empty amb0 (JObj ?raw) = Inr (plain ?raw)"
    by (simp add: copy_plain)
  have s: "\<forall>p\<in>set ?ps. typeof p = ''string'' \<or> structured p"
    by (simp add: structured_def)
  have a: "\<forall>issued c. accepting issued c = None"
    by (simp add: accepting_def)
  from plugin_entries_identified_and_registered [OF p c one_plugin_valid s a]
  obtain ids where ids:
    "processOptions amb0 (plain ?raw) = Inr (options_record amb0 (plain ?raw) (JArr ids))"
    "ESLint_constructor amb0 accepting (JObj ?raw)
       = (NewCLIEngine (options_record amb0 (plain ?raw) (JArr ids)) # registrations ?ps, Inr ())"
    by blast
  have "processOptions amb0 (plain ?raw)
          = Inr (options_record amb0 (plain ?raw) (JArr [JStr ''foo'', JStr ''bar'']))"
    by (simp add: processOptions_valid one_plugin_valid param_def get_param_def)
  with ids(1) have "options_record amb0 (plain ?raw) (JArr ids)
      = options_record amb0 (plain ?raw) (JArr [JStr ''foo'', JStr ''bar''])"
    by simp
  with ids(2) show ?thesis
    by (simp add: structured_def member_def)
qed

subsection \<open>First violation\<close>

text \<open>
  Claim C8 as stated: every raw record that violates one or more rules, unknown fields
  first, makes the construction fail without engine initialization. The validator does
  not receive the raw record but its copy by \<^verbatim>\<open>Object.assign\<close>, and an own field
  \<^verbatim>\<open>__proto__\<close> of the raw record is no field of the copy: the record below has a field
  outside the recognized set, and the constructor initializes the engine and returns.
\<close>

theorem proto_field_passes_validation:
  "rest_props (plain [(''configFile'', JStr ''.eslintrc.json''), (''plugins'', JArr []),
                      (''__proto__'', JObj [])])
     = [(''__proto__'', JObj [])]
   \<and> violated amb0
        (plain [(''configFile'', JStr ''.eslintrc.json''), (''plugins'', JArr []),
                (''__proto__'', JObj [])])
        R_unknown
   \<and> ESLint_constructor amb0 accepting
        (JObj [(''configFile'', JStr ''.eslintrc.json''), (''plugins'', JArr []),
               (''__proto__'', JObj [])])
       = ([NewCLIEngine
             (options_record amb0
                (Object [(''configFile'', JStr ''.eslintrc.json''), (''plugins'', JArr [])]
                   (Some (JObj [])))
                (JArr []))],
          Inr ())"
proof -
  let ?raw = "[(''configFile'', JStr ''.eslintrc.json''), (''plugins'', JArr []),
               (''__proto__'', JObj [])]"
  let ?copy = "Object [(''configFile'', JStr ''.eslintrc.json''), (''plugins'', JArr [])]
                 (Some (JObj []))"
  let ?opts = "options_record amb0 ?copy (JArr [])"
  have r: "rest_props (plain ?raw) = [(''__proto__'', JObj [])]"
    by (simp add: rest_props_def recognized_def)
  have c: "Object_assign_empty amb0 (JObj ?raw) = Inr ?copy"
    by (simp add: Object_assign_empty_def)
  have v: "first_violation amb0 ?copy = None"
    by (simp add: first_violation_def enumeration_order_def param_def get_param_def
          rest_props_def recognized_def)
  then have ok: "processOptions amb0 ?copy = Inr ?opts"
    by (simp add: processOptions_valid param_def get_param_def)
  have e: "accepting [] (NewCLIEngine ?opts) = None"
    by (simp add: accepting_def)
  have p: "map_of ?raw ''plugins'' = Some (JArr [])"
    by simp
  from constructor_valid [where eng = accepting, OF c ok e p] r show ?thesis
    by simp
qed

text \<open>
  Claim C8, amended: when the copy of the raw record that the validator receives (the own
  fields of the raw record other than \<^verbatim>\<open>__proto__\<close>, on the prototype that a \<^verbatim>\<open>__proto__\<close>
  field set) violates one or more rules, the construction fails on the first violation in
  the enumeration order (unknown fields, then the 23 fields from \<^verbatim>\<open>allowInlineConfig\<close> to
  \<^verbatim>\<open>useEslintrc\<close>): the validator throws what the statement of that rule throws, the
  constructor throws the same, and no call to the engine is issued.
\<close>

theorem fails_on_first_violation:
  assumes "Object_assign_empty amb (JObj raw) = Inr copy"
      and "violated amb copy r"
  shows "\<exists>f. first_violation amb copy = Some f
           \<and> processOptions amb copy = Inl (thrown amb copy f)
           \<and> ESLint_constructor amb eng (JObj raw) = ([], Inl (thrown amb copy f))"
proof -
  from assms(2) obtain f where f: "first_violation amb copy = Some f"
    using first_violation_exists by blast
  then have "processOptions amb copy = Inl (thrown amb copy f)"
    by (rule processOptions_violation)
  with f assms(1) show ?thesis by (simp add: ESLint_constructor_def)
qed

theorem fails_on_first_violation_witness:
  "Object_assign_empty amb0 (JObj [(''cache'', JStr ''yes''), (''envs'', JStr ''x'')])
     = Inr (plain [(''cache'', JStr ''yes''), (''envs'', JStr ''x'')])
   \<and> violated amb0 (plain [(''cache'', JStr ''yes''), (''envs'', JStr ''x'')]) R_envs
   \<and> first_violation amb0 (plain [(''cache'', JStr ''yes''), (''envs'', JStr ''x'')])
       = Some R_cache
   \<and> ESLint_constructor amb0 accepting (JObj [(''cache'', JStr ''yes''), (''envs'', JStr ''x'')])
       = ([], Inl (Error ''cache must be a boolean.''))"
proof -
  let ?raw = "[(''cache'', JStr ''yes''), (''envs'', JStr ''x'')]"
  have c: "Object_assign_empty amb0 (JObj ?raw) = Inr (plain ?raw)"
    by (simp add: copy_plain)
  have h: "violated amb0 (plain ?raw) R_envs"
    by (simp add: param_def get_param_def)
  have f: "first_violation amb0 (plain ?raw) = Some R_cache"
    by (simp add: first_violation_def enumeration_order_def param_def get_param_def
          rest_props_def recognized_def)
  from fails_on_first_violation [OF c h, of accepting] f h c show ?thesis by auto
qed

subsection \<open>An omitted \<^verbatim>\<open>plugins\<close> field\<close>

text \<open>
  Claim C9 as stated: every raw record without a \<^verbatim>\<open>plugins\<close> field makes the constructor
  throw after validation and engine initialization, so that omitting \<^verbatim>\<open>plugins\<close> differs
  from supplying \<^verbatim>\<open>plugins: []\<close>. The empty record omits \<^verbatim>\<open>plugins\<close> and is rejected by the
  validator, before any engine call, and so is the record \<^verbatim>\<open>{ plugins: [] }\<close>, with the
  same error.
\<close>

theorem omitted_plugins_fails_in_validation:
  "map_of ([] :: props) ''plugins'' = None
   \<and> ESLint_constructor amb0 accepting (JObj [])
       = ([], Inl (Error ''configFile must be a string or null.''))
   \<and> ESLint_constructor amb0 accepting (JObj [(''plugins'', JArr [])])
       = ([], Inl (Error ''configFile must be a string or null.''))"
proof -
  have "first_violation amb0 (plain [(''plugins'', JArr [])]) = Some R_configFile"
    by (simp add: first_violation_def enumeration_order_def param_def get_param_def
          rest_props_def recognized_def)
  then have "processOptions amb0 (plain [(''plugins'', JArr [])])
               = Inl (Error ''configFile must be a string or null.'')"
    by (simp add: processOptions_violation)
  moreover have "processOptions amb0 (plain [])
               = Inl (Error ''configFile must be a string or null.'')"
    by (simp add: processOptions_violation empty_first_violation)
  ultimately show ?thesis
    by (simp add: ESLint_constructor_def Object_assign_empty_def)
qed

text \<open>
  Claim C9, amended: every raw record without a \<^verbatim>\<open>plugins\<close> field makes the constructor
  throw. When its copy passes validation and the engine is initialized, the constructor
  throws after both, on reading \<^verbatim>\<open>length\<close> of the raw, undefined \<^verbatim>\<open>plugins\<close>, where the
  validator had put the empty list; there the same record with \<^verbatim>\<open>plugins: []\<close> added
  (the copy inheriting no \<^verbatim>\<open>plugins\<close>, as is the case without a \<^verbatim>\<open>__proto__\<close> field)
  initializes the engine with the same options and returns normally.
\<close>

theorem omitted_plugins_throws_after_initialization:
  assumes "map_of raw ''plugins'' = None"
  shows "(\<exists>e. snd (ESLint_constructor amb eng (JObj raw)) = Inl e)
       \<and> (\<forall>copy opts.
             Object_assign_empty amb (JObj raw) = Inr copy
             \<and> processOptions amb copy = Inr opts
             \<and> eng [] (NewCLIEngine opts) = None \<longrightarrow>
             ESLint_constructor amb eng (JObj raw)
               = ([NewCLIEngine opts], Inl (TypeError (ReadOfNullish ''length'')))
           \<and> (inherited (prototype copy) ''plugins'' = JUndefined \<longrightarrow>
                ESLint_constructor amb eng (JObj (raw @ [(''plugins'', JArr [])]))
                  = ([NewCLIEngine opts], Inr ())))"
proof -
  have "\<exists>e. snd (ESLint_constructor amb eng (JObj raw)) = Inl e"
    by (simp add: constructor_plugins_omitted [OF assms] split: sum.splits option.splits)
  moreover
  have "ESLint_constructor amb eng (JObj raw)
               = ([NewCLIEngine opts], Inl (TypeError (ReadOfNullish ''length'')))
           \<and> (inherited (prototype copy) ''plugins'' = JUndefined \<longrightarrow>
                ESLint_constructor amb eng (JObj (raw @ [(''plugins'', JArr [])]))
                  = ([NewCLIEngine opts], Inr ()))"
    if c: "Object_assign_empty amb (JObj raw) = Inr copy"
      and ok: "processOptions amb copy = Inr opts"
      and e: "eng [] (NewCLIEngine opts) = None" for copy opts
  proof -
    let ?raw' = "raw @ [(''plugins'', JArr [])]"
    let ?copy' = "Object (own copy @ [(''plugins'', JArr [])]) (prototype copy)"
    from c ok e have first: "ESLint_constructor amb eng (JObj raw)
               = ([NewCLIEngine opts], Inl (TypeError (ReadOfNullish ''length'')))"
      by (simp add: constructor_plugins_omitted [OF assms])
    have "ESLint_constructor amb eng (JObj ?raw') = ([NewCLIEngine opts], Inr ())"
      if i: "inherited (prototype copy) ''plugins'' = JUndefined"
    proof -
      from c assms have o: "map_of (own copy) ''plugins'' = None"
        by (simp add: copy_own_lookup)
      have c': "Object_assign_empty amb (JObj ?raw') = Inr ?copy'"
        using c by (rule copy_append_plugins)
      from o i ok have a: "processOptions amb ?copy' = Inr opts"
        by (simp add: processOptions_with_plugins)
      from assms have b: "map_of ?raw' ''plugins'' = Some (JArr [])"
        by (simp add: map_add_def)
      have "ESLint_constructor amb eng (JObj ?raw') = addPlugins eng [NewCLIEngine opts] []"
        by (rule constructor_valid [where eng = eng, OF c' a e b])
      then show ?thesis by simp
    qed
    with first show ?thesis by blast
  qed
  ultimately show ?thesis by blast
qed

theorem omitted_plugins_throws_after_initialization_witness:
  "ESLint_constructor amb0 accepting (JObj [(''configFile'', JStr ''.eslintrc.json'')])
     = ([NewCLIEngine
           (options_record amb0 (plain [(''configFile'', JStr ''.eslintrc.json'')]) (JArr []))],
        Inl (TypeError (ReadOfNullish ''length'')))
   \<and> ESLint_constructor amb0 accepting
       (JObj [(''configFile'', JStr ''.eslintrc.json''), (''plugins'', JArr [])])
     = ([NewCLIEngine
           (options_record amb0 (plain [(''configFile'', JStr ''.eslintrc.json'')]) (JArr []))],
        Inr ())"
proof -
  let ?raw = "[(''configFile'', JStr ''.eslintrc.json'')]"
  have h: "map_of ?raw ''plugins'' = None"
    by simp
  have c: "Object_assign_empty amb0 (JObj ?raw) = Inr (plain ?raw)"
    by (simp add: copy_plain)
  have ok: "processOptions amb0 (plain ?raw) = Inr (options_record amb0 (plain ?raw) (JArr []))"
    by (simp add: processOptions_valid minimal_valid param_def get_param_def)
  have e: "accepting [] (NewCLIEngine (options_record amb0 (plain ?raw) (JArr []))) = None"
    by (simp add: accepting_def)
  have i: "inherited (prototype (plain ?raw)) ''plugins'' = JUndefined"
    by simp
  from omitted_plugins_throws_after_initialization [OF h, of amb0 accepting] c ok e i
  show ?thesis
    by simp
qed


end
